theory Spec2Isabelle
  imports Complex_Main "HOL-Library.Sublist" "HOL-Library.Multiset"
    "HOL-Library.Product_Lexorder"
begin

section \<open>Floats\<close>

text \<open>
  The program is the Flask service \<^verbatim>\<open>src/app.py\<close>. A Python float is a finite
  number, one of the two infinities, or \<^verbatim>\<open>nan\<close>; \<^verbatim>\<open>float("nan")\<close> and
  \<^verbatim>\<open>float("inf")\<close> succeed, and the JSON parser reads the literals \<^verbatim>\<open>NaN\<close> and
  \<^verbatim>\<open>Infinity\<close>. A finite float is modelled as the real number it denotes: the rounding
  and the overflow of the arithmetic are not modelled, and the two zeros are one.
\<close>

datatype pyfloat = Fin real | PInf | NInf | NaN

text \<open>The comparisons \<^verbatim>\<open><\<close>, \<^verbatim>\<open>>\<close>, \<^verbatim>\<open>==\<close> and \<^verbatim>\<open><=\<close>: each is false when an operand is \<^verbatim>\<open>nan\<close>.\<close>

fun f_lt :: "pyfloat \<Rightarrow> pyfloat \<Rightarrow> bool" where
  "f_lt (Fin x) (Fin y) = (x < y)"
| "f_lt NaN b = False"
| "f_lt a NaN = False"
| "f_lt a NInf = False"
| "f_lt NInf b = True"
| "f_lt PInf b = False"
| "f_lt a PInf = True"

definition f_gt :: "pyfloat \<Rightarrow> pyfloat \<Rightarrow> bool" where
  "f_gt a b = f_lt b a"

definition f_eq :: "pyfloat \<Rightarrow> pyfloat \<Rightarrow> bool" where
  "f_eq a b = (a = b \<and> a \<noteq> NaN)"

definition f_le :: "pyfloat \<Rightarrow> pyfloat \<Rightarrow> bool" where
  "f_le a b = (f_lt a b \<or> f_eq a b)"

text \<open>
  The arithmetic. An infinity times zero, and the sum of the two infinities, are
  \<^verbatim>\<open>nan\<close>; \<^verbatim>\<open>nan\<close> makes every result \<^verbatim>\<open>nan\<close>.
\<close>

fun f_sign :: "pyfloat \<Rightarrow> real" where
  "f_sign (Fin x) = sgn x"
| "f_sign PInf = 1"
| "f_sign NInf = - 1"
| "f_sign NaN = 0"

definition inf_of_sign :: "real \<Rightarrow> pyfloat" where
  "inf_of_sign s = (if s > 0 then PInf else if s < 0 then NInf else NaN)"

fun f_neg :: "pyfloat \<Rightarrow> pyfloat" where
  "f_neg (Fin x) = Fin (- x)"
| "f_neg PInf = NInf"
| "f_neg NInf = PInf"
| "f_neg NaN = NaN"

fun f_mul :: "pyfloat \<Rightarrow> pyfloat \<Rightarrow> pyfloat" where
  "f_mul (Fin x) (Fin y) = Fin (x * y)"
| "f_mul NaN b = NaN"
| "f_mul a NaN = NaN"
| "f_mul a b = inf_of_sign (f_sign a * f_sign b)"

fun f_add :: "pyfloat \<Rightarrow> pyfloat \<Rightarrow> pyfloat" where
  "f_add (Fin x) (Fin y) = Fin (x + y)"
| "f_add NaN b = NaN"
| "f_add a NaN = NaN"
| "f_add PInf NInf = NaN"
| "f_add NInf PInf = NaN"
| "f_add PInf b = PInf"
| "f_add a PInf = PInf"
| "f_add NInf b = NInf"
| "f_add a NInf = NInf"

definition f_sub :: "pyfloat \<Rightarrow> pyfloat \<Rightarrow> pyfloat" where
  "f_sub a b = f_add a (f_neg b)"

section \<open>Values, strings and errors\<close>

datatype error = TypeError | ValueError | StatisticsError | ZeroDivisionError

text \<open>
  The division \<^verbatim>\<open>a / b\<close> of two floats raises on a zero divisor, whatever the dividend.
\<close>

fun py_div :: "pyfloat \<Rightarrow> pyfloat \<Rightarrow> error + pyfloat" where
  "py_div a (Fin y) =
     (if y = 0 then Inl ZeroDivisionError
      else (case a of
              Fin x \<Rightarrow> Inr (Fin (x / y))
            | NaN \<Rightarrow> Inr NaN
            | _ \<Rightarrow> Inr (inf_of_sign (f_sign a * sgn y))))"
| "py_div a NaN = Inr NaN"
| "py_div (Fin x) b = Inr (Fin 0)"
| "py_div a b = Inr NaN"

text \<open>
  A JSON scalar as Python sees it: \<^verbatim>\<open>None\<close>, a string or a number. A number is held
  as the float that \<^verbatim>\<open>float\<close> makes of it.
\<close>

datatype pyval = PyNone | PyStr string | PyNum pyfloat

text \<open>
  Python truthiness, as tested by \<^verbatim>\<open>not price\<close>: of the numbers only zero is false,
  so \<^verbatim>\<open>nan\<close> is true.
\<close>

fun truthy :: "pyval \<Rightarrow> bool" where
  "truthy PyNone = False"
| "truthy (PyStr s) = (s \<noteq> [])"
| "truthy (PyNum x) = (x \<noteq> Fin 0)"

text \<open>
  \<^verbatim>\<open>float(v)\<close>. The builtin's parser of strings is not part of the repository, so it is
  the parameter \<open>pf\<close>: \<open>pf s = None\<close> when \<^verbatim>\<open>float(s)\<close> raises \<^verbatim>\<open>ValueError\<close>, and
  \<open>pf s = Some NaN\<close> for a string such as \<^verbatim>\<open>nan\<close>.
\<close>

fun py_float :: "(string \<Rightarrow> pyfloat option) \<Rightarrow> pyval \<Rightarrow> error + pyfloat" where
  "py_float pf PyNone = Inl TypeError"
| "py_float pf (PyStr s) = (case pf s of None \<Rightarrow> Inl ValueError | Some x \<Rightarrow> Inr x)"
| "py_float pf (PyNum x) = Inr x"

text \<open>\<^verbatim>\<open>str.lower()\<close> on ASCII.\<close>

definition lower_char :: "char \<Rightarrow> char" where
  "lower_char c =
     (case map_of (zip ''ABCDEFGHIJKLMNOPQRSTUVWXYZ'' ''abcdefghijklmnopqrstuvwxyz'') c of
        None \<Rightarrow> c
      | Some d \<Rightarrow> d)"

definition lower :: "string \<Rightarrow> string" where
  "lower s = map lower_char s"

text \<open>\<^verbatim>\<open>str.strip()\<close>: the ASCII characters for which \<^verbatim>\<open>str.isspace\<close> holds.\<close>

definition is_space :: "char \<Rightarrow> bool" where
  "is_space c = (c \<in> set [CHR '' '', CHR 0x09, CHR 0x0A, CHR 0x0B, CHR 0x0C, CHR 0x0D,
                           CHR 0x1C, CHR 0x1D, CHR 0x1E, CHR 0x1F])"

definition strip :: "string \<Rightarrow> string" where
  "strip s = rev (dropWhile is_space (rev (dropWhile is_space s)))"

text \<open>The substring test \<^verbatim>\<open>a in b\<close> of two strings.\<close>

fun str_in :: "string \<Rightarrow> string \<Rightarrow> bool" where
  "str_in a [] = (a = [])"
| "str_in a (c # cs) = (prefix a (c # cs) \<or> str_in a cs)"

section \<open>Price aggregation\<close>

text \<open>
  One record of the feed. \<^verbatim>\<open>record.get("commodity")\<close> is \<^verbatim>\<open>None\<close> or a string;
  \<^verbatim>\<open>record.get("modal_price")\<close> is any scalar.
\<close>

record mandi_record =
  commodity :: "string option"
  modal_price :: pyval

text \<open>
  A Python \<^verbatim>\<open>dict\<close> keeps its keys in insertion order: an association list with
  distinct keys. \<open>dict_append k p d\<close> is
  \<^verbatim>\<open>if k not in d: d[k] = []\<close> followed by \<^verbatim>\<open>d[k].append(p)\<close>.
\<close>

type_synonym 'v pydict = "(string \<times> 'v) list"

fun dict_append :: "string \<Rightarrow> pyfloat \<Rightarrow> pyfloat list pydict \<Rightarrow> pyfloat list pydict" where
  "dict_append k p [] = [(k, [p])]"
| "dict_append k p ((k', ps) # d) =
     (if k' = k then (k', ps @ [p]) # d else (k', ps) # dict_append k p d)"

text \<open>
  The body of the first loop of \<^verbatim>\<open>build_price_dictionary\<close>; \<open>d\<close> unchanged is
  \<^verbatim>\<open>continue\<close>. The two tests of the outlier filtering are the comparisons of floats,
  which are both false of \<^verbatim>\<open>nan\<close>.
\<close>

definition add_record ::
  "(string \<Rightarrow> pyfloat option) \<Rightarrow> mandi_record \<Rightarrow> pyfloat list pydict \<Rightarrow> pyfloat list pydict" where
  "add_record pf r d =
     (case commodity r of
        None \<Rightarrow> d
      | Some c \<Rightarrow>
          if c = [] \<or> \<not> truthy (modal_price r) then d
          else (case py_float pf (modal_price r) of
                  Inl e \<Rightarrow> d
                | Inr price \<Rightarrow>
                    if f_lt price (Fin 100) then d
                    else if f_gt price (Fin 30000) then d
                    else dict_append (strip (lower c)) price d))"

definition collect_prices ::
  "(string \<Rightarrow> pyfloat option) \<Rightarrow> mandi_record list \<Rightarrow> pyfloat list pydict" where
  "collect_prices pf records = fold (add_record pf) records []"

text \<open>
  \<^verbatim>\<open>statistics.median\<close> of the standard library: it sorts the data with
  \<^verbatim>\<open>sorted\<close>, raises \<^verbatim>\<open>StatisticsError\<close> on no data, and returns the middle element
  when their number is odd, the mean of the two middle elements otherwise. The builtin
  \<^verbatim>\<open>sorted\<close> is not part of the repository: it is the parameter \<open>srt\<close>.
\<close>

definition median :: "(pyfloat list \<Rightarrow> pyfloat list) \<Rightarrow> pyfloat list \<Rightarrow> error + pyfloat" where
  "median srt xs =
     (let data = srt xs; n = length data in
      if n = 0 then Inl StatisticsError
      else if n mod 2 = 1 then Inr (data ! (n div 2))
      else py_div (f_add (data ! (n div 2 - 1)) (data ! (n div 2))) (Fin 2))"

text \<open>The second loop: every list of prices is replaced by its median.\<close>

fun median_all ::
  "(pyfloat list \<Rightarrow> pyfloat list) \<Rightarrow> pyfloat list pydict \<Rightarrow> error + pyfloat pydict" where
  "median_all srt [] = Inr []"
| "median_all srt ((k, ps) # rest) =
     (case median srt ps of
        Inl e \<Rightarrow> Inl e
      | Inr m \<Rightarrow> (case median_all srt rest of Inl e \<Rightarrow> Inl e | Inr d \<Rightarrow> Inr ((k, m) # d)))"

definition build_price_dictionary ::
  "(pyfloat list \<Rightarrow> pyfloat list) \<Rightarrow> (string \<Rightarrow> pyfloat option) \<Rightarrow> mandi_record list
     \<Rightarrow> error + pyfloat pydict" where
  "build_price_dictionary srt pf records = median_all srt (collect_prices pf records)"

text \<open>
  \<^verbatim>\<open>get_price_for_crop\<close>. The loop over the keys stops at the first key it accepts;
  \<open>find_commodity\<close> is that loop and returns the entry it stopped at.
\<close>

fun find_commodity :: "string \<Rightarrow> pyfloat pydict \<Rightarrow> (string \<times> pyfloat) option" where
  "find_commodity crop_name [] = None"
| "find_commodity crop_name ((key, price) # rest) =
     (if str_in ''chilli'' crop_name \<and> str_in ''dry'' key \<and> str_in ''green'' crop_name
      then find_commodity crop_name rest
      else if str_in crop_name key then Some (key, price)
      else find_commodity crop_name rest)"

definition get_price_for_crop :: "string \<Rightarrow> pyfloat pydict \<Rightarrow> pyfloat" where
  "get_price_for_crop crop_name price_dict =
     (case find_commodity (lower crop_name) price_dict of
        None \<Rightarrow> Fin 0
      | Some (key, price) \<Rightarrow> price)"

section \<open>The prediction route\<close>

text \<open>One row of the crop catalog \<^verbatim>\<open>crop_master\<close>, with the columns the code reads.\<close>

record crop_row =
  crop_id :: int
  crop_name :: string
  total_cost_per_acre :: pyfloat
  season_kharif :: int
  season_rabi :: int
  soil_black :: int
  soil_red :: int
  soil_alluvial :: int

text \<open>The JSON body of a request; the three numbers are still to be read by \<^verbatim>\<open>float\<close>.\<close>

record request =
  district :: string
  season :: string
  soil :: string
  rainfall :: pyval
  irrigation :: string
  land_area :: pyval
  profit :: pyval

text \<open>The one-row frame \<^verbatim>\<open>input_data\<close> handed to the yield model.\<close>

record features =
  f_district_mean_rainfall :: real
  f_rainfall_mm :: pyfloat
  f_crop_id :: int
  f_soil_black :: int
  f_soil_red :: int
  f_soil_alluvial :: int
  f_irrigation_rainfed :: int
  f_irrigation_borewell :: int
  f_irrigation_canal :: int
  f_season_kharif :: int
  f_season_rabi :: int

text \<open>One element of \<^verbatim>\<open>recommendations\<close>.\<close>

record recommendation =
  crop :: string
  predicted_yield :: pyfloat
  market_price_per_quintal :: pyfloat
  investment :: pyfloat
  expected_profit :: pyfloat
  roi_percent :: pyfloat
  risk_level :: string

definition district_rainfall :: "(string \<times> real) list" where
  "district_rainfall =
     [(''Mandya'', 806), (''Mysuru'', 798), (''Hassan'', 1031),
      (''Chikkamagaluru'', 1925), (''Shivamogga'', 1813),
      (''Kodagu'', 2718), (''Udupi'', 4119),
      (''Dakshina Kannada'', 3975), (''Uttara Kannada'', 2835),
      (''Belagavi'', 808), (''Dharwad'', 772),
      (''Haveri'', 753), (''Tumakuru'', 688),
      (''Raichur'', 621), (''Bagalkote'', 562),
      (''Vijayapura'', 578), (''Kolar'', 744),
      (''Bengaluru Rural'', 885), (''Ballari'', 636),
      (''Gulbarga'', 777)]"

definition district_mean_of :: "string \<Rightarrow> real" where
  "district_mean_of d = (case map_of district_rainfall d of None \<Rightarrow> 800 | Some v \<Rightarrow> v)"

text \<open>
  \<^verbatim>\<open>round(x, 2)\<close>: of a finite float the nearest multiple of one hundredth, a tie
  going to the even one; of an infinity or \<^verbatim>\<open>nan\<close> the float itself.
\<close>

definition round2 :: "real \<Rightarrow> real" where
  "round2 x =
     (let y = x * 100; f = \<lfloor>y\<rfloor>; d = y - of_int f in
      (if d < 1 / 2 then of_int f
       else if d > 1 / 2 then of_int (f + 1)
       else if even f then of_int f else of_int (f + 1)) / 100)"

fun f_round2 :: "pyfloat \<Rightarrow> pyfloat" where
  "f_round2 (Fin x) = Fin (round2 x)"
| "f_round2 a = a"

text \<open>The rule filtering at the head of the loop: \<open>False\<close> is \<^verbatim>\<open>continue\<close>.\<close>

definition passes_filter :: "string \<Rightarrow> string \<Rightarrow> crop_row \<Rightarrow> bool" where
  "passes_filter season_s soil_s c =
     (if lower season_s = ''kharif'' \<and> season_kharif c \<noteq> 1 then False
      else if lower season_s = ''rabi'' \<and> season_rabi c \<noteq> 1 then False
      else if lower soil_s = ''black'' \<and> soil_black c \<noteq> 1 then False
      else if lower soil_s = ''red'' \<and> soil_red c \<noteq> 1 then False
      else if lower soil_s = ''alluvial'' \<and> soil_alluvial c \<noteq> 1 then False
      else True)"

definition make_features ::
  "real \<Rightarrow> pyfloat \<Rightarrow> string \<Rightarrow> string \<Rightarrow> string \<Rightarrow> crop_row \<Rightarrow> features" where
  "make_features district_mean rainfall_v season_s soil_s irrigation_s c =
     \<lparr> f_district_mean_rainfall = district_mean,
       f_rainfall_mm = rainfall_v,
       f_crop_id = crop_id c,
       f_soil_black = (if lower soil_s = ''black'' then 1 else 0),
       f_soil_red = (if lower soil_s = ''red'' then 1 else 0),
       f_soil_alluvial = (if lower soil_s = ''alluvial'' then 1 else 0),
       f_irrigation_rainfed = (if lower irrigation_s = ''rainfed'' then 1 else 0),
       f_irrigation_borewell = (if lower irrigation_s = ''borewell'' then 1 else 0),
       f_irrigation_canal = (if lower irrigation_s = ''canal'' then 1 else 0),
       f_season_kharif = (if lower season_s = ''kharif'' then 1 else 0),
       f_season_rabi = (if lower season_s = ''rabi'' then 1 else 0) \<rparr>"

text \<open>
  \<^verbatim>\<open>roi = (expected_profit / investment) * 100 if investment > 0 else 0\<close>
\<close>

definition compute_roi :: "pyfloat \<Rightarrow> pyfloat \<Rightarrow> error + pyfloat" where
  "compute_roi expected_profit_v investment_v =
     (if f_gt investment_v (Fin 0)
      then (case py_div expected_profit_v investment_v of
              Inl e \<Rightarrow> Inl e
            | Inr q \<Rightarrow> Inr (f_mul q (Fin 100)))
      else Inr (Fin 0))"

definition risk_of :: "pyfloat \<Rightarrow> string" where
  "risk_of roi =
     (if f_gt roi (Fin 200) then ''High Reward (High Market Volatility)''
      else if f_gt roi (Fin 80) then ''Moderate''
      else ''Stable'')"

text \<open>
  The body of the loop over the catalog, for one row: \<open>Inr None\<close> is \<^verbatim>\<open>continue\<close>,
  \<open>Inr (Some r)\<close> appends \<open>r\<close>. The yield model is the parameter \<open>model\<close>, a function of
  the feature row.
\<close>

definition evaluate_crop ::
  "(features \<Rightarrow> pyfloat) \<Rightarrow> pyfloat pydict \<Rightarrow> real \<Rightarrow> string \<Rightarrow> string \<Rightarrow> pyfloat \<Rightarrow> string
     \<Rightarrow> pyfloat \<Rightarrow> crop_row \<Rightarrow> error + recommendation option" where
  "evaluate_crop model price_dict district_mean season_s soil_s rainfall_v irrigation_s
       land_area_v c =
     (if \<not> passes_filter season_s soil_s c then Inr None
      else
        let input_data = make_features district_mean rainfall_v season_s soil_s irrigation_s c;
            yield = model input_data;
            price = get_price_for_crop (crop_name c) price_dict
        in if f_eq price (Fin 0) then Inr None
           else
             let investment_v = f_mul (total_cost_per_acre c) land_area_v;
                 revenue = f_mul (f_mul yield land_area_v) price;
                 expected_profit_v = f_sub revenue investment_v
             in (case compute_roi expected_profit_v investment_v of
                   Inl e \<Rightarrow> Inl e
                 | Inr roi \<Rightarrow>
                     Inr (Some \<lparr> crop = crop_name c,
                                 predicted_yield = f_round2 yield,
                                 market_price_per_quintal = f_round2 price,
                                 investment = f_round2 investment_v,
                                 expected_profit = f_round2 expected_profit_v,
                                 roi_percent = f_round2 roi,
                                 risk_level = risk_of roi \<rparr>)))"

fun evaluate_all ::
  "(features \<Rightarrow> pyfloat) \<Rightarrow> pyfloat pydict \<Rightarrow> real \<Rightarrow> string \<Rightarrow> string \<Rightarrow> pyfloat \<Rightarrow> string
     \<Rightarrow> pyfloat \<Rightarrow> crop_row list \<Rightarrow> error + recommendation list" where
  "evaluate_all model pd dm se so rf ir la [] = Inr []"
| "evaluate_all model pd dm se so rf ir la (c # cs) =
     (case evaluate_crop model pd dm se so rf ir la c of
        Inl e \<Rightarrow> Inl e
      | Inr None \<Rightarrow> evaluate_all model pd dm se so rf ir la cs
      | Inr (Some r) \<Rightarrow>
          (case evaluate_all model pd dm se so rf ir la cs of
             Inl e \<Rightarrow> Inl e
           | Inr rs \<Rightarrow> Inr (r # rs)))"

text \<open>
  The last two statements of \<^verbatim>\<open>predict\<close>: the sort and the slice \<^verbatim>\<open>[:3]\<close>. The
  method \<^verbatim>\<open>list.sort\<close> is not part of the repository: the call
  \<^verbatim>\<open>recommendations.sort(key=lambda x: x["expected_profit"], reverse=True)\<close> is the
  parameter \<open>lsort\<close>.
\<close>

definition rank ::
  "(recommendation list \<Rightarrow> recommendation list) \<Rightarrow> recommendation list \<Rightarrow> recommendation list" where
  "rank lsort recommendations = take 3 (lsort recommendations)"

text \<open>
  \<^verbatim>\<open>predict\<close>. The catalog, the yield model and the records that
  \<^verbatim>\<open>fetch_karnataka_prices\<close> returned are parameters.
\<close>

definition predict ::
  "(pyfloat list \<Rightarrow> pyfloat list) \<Rightarrow> (recommendation list \<Rightarrow> recommendation list)
     \<Rightarrow> (string \<Rightarrow> pyfloat option) \<Rightarrow> (features \<Rightarrow> pyfloat) \<Rightarrow> crop_row list
     \<Rightarrow> mandi_record list \<Rightarrow> request \<Rightarrow> error + recommendation list" where
  "predict srt lsort pf model crop_master mandi_records data =
     (case py_float pf (rainfall data) of
        Inl e \<Rightarrow> Inl e
      | Inr rainfall_v \<Rightarrow>
     (case py_float pf (land_area data) of
        Inl e \<Rightarrow> Inl e
      | Inr land_area_v \<Rightarrow>
     (case py_float pf (profit data) of
        Inl e \<Rightarrow> Inl e
      | Inr available_profit \<Rightarrow>
     (case build_price_dictionary srt pf mandi_records of
        Inl e \<Rightarrow> Inl e
      | Inr price_dict \<Rightarrow>
     (case evaluate_all model price_dict (district_mean_of (district data)) (season data)
             (soil data) rainfall_v (irrigation data) land_area_v crop_master of
        Inl e \<Rightarrow> Inl e
      | Inr recommendations \<Rightarrow> Inr (rank lsort recommendations))))))"

section \<open>The aggregation as the specification words it\<close>

text \<open>
  The specification speaks of quotes, of the quotes that survive and of the prices of one
  commodity. \<open>quote_of\<close> is the quote a record carries: its normalised commodity name and
  its price, when the record has a commodity name and a price that \<^verbatim>\<open>float\<close> reads.
  The specification discards a quote whose price is below 100 or above 30000:
  \<open>surviving_prices\<close> lists, in the order of the feed, the prices of the quotes of one
  commodity that are not discarded. \<open>in_range\<close> is the inclusive range from 100 to 30000,
  and \<open>prices_of\<close> is \<^verbatim>\<open>d.get(k, [])\<close>.
\<close>

definition quote_of ::
  "(string \<Rightarrow> pyfloat option) \<Rightarrow> mandi_record \<Rightarrow> (string \<times> pyfloat) option" where
  "quote_of pf r =
     (case commodity r of
        None \<Rightarrow> None
      | Some c \<Rightarrow>
          if c = [] \<or> \<not> truthy (modal_price r) then None
          else (case py_float pf (modal_price r) of
                  Inl e \<Rightarrow> None
                | Inr p \<Rightarrow> Some (strip (lower c), p)))"

definition surviving_prices ::
  "(string \<Rightarrow> pyfloat option) \<Rightarrow> mandi_record list \<Rightarrow> string \<Rightarrow> pyfloat list" where
  "surviving_prices pf records k =
     map snd (filter (\<lambda>q. fst q = k \<and> \<not> f_lt (snd q) (Fin 100) \<and> \<not> f_gt (snd q) (Fin 30000))
                (List.map_filter (quote_of pf) records))"

definition in_range :: "pyfloat \<Rightarrow> bool" where
  "in_range p = (f_le (Fin 100) p \<and> f_le p (Fin 30000))"

definition prices_of :: "pyfloat list pydict \<Rightarrow> string \<Rightarrow> pyfloat list" where
  "prices_of d k = (case map_of d k of None \<Rightarrow> [] | Some ps \<Rightarrow> ps)"


section \<open>What Python promises of its sorts\<close>

text \<open>
  \<^verbatim>\<open>sorted\<close> and \<^verbatim>\<open>list.sort\<close> compare with \<^verbatim>\<open><\<close> only. Whatever the comparisons
  answer, the result is a rearrangement of the argument. When the keys are ordered by
  \<^verbatim>\<open><\<close>, which floats are as long as none is \<^verbatim>\<open>nan\<close>, the result is sorted and the
  sort is stable, also under \<^verbatim>\<open>reverse=True\<close>. With \<^verbatim>\<open>nan\<close> among the keys the order
  of the result depends on the algorithm and is not part of the contract.
  \<open>ordered_desc\<close> is the order by expected profit, highest first.
\<close>

definition sorted_ok :: "(pyfloat list \<Rightarrow> pyfloat list) \<Rightarrow> bool" where
  "sorted_ok srt =
     (\<forall>xs. mset (srt xs) = mset xs \<and> (NaN \<notin> set xs \<longrightarrow> sorted_wrt f_le (srt xs)))"

definition ordered_desc :: "recommendation list \<Rightarrow> bool" where
  "ordered_desc rs = sorted_wrt (\<lambda>a b. f_le (expected_profit b) (expected_profit a)) rs"

definition list_sort_ok :: "(recommendation list \<Rightarrow> recommendation list) \<Rightarrow> bool" where
  "list_sort_ok lsort =
     (\<forall>xs. mset (lsort xs) = mset xs
        \<and> (NaN \<notin> set (map expected_profit xs) \<longrightarrow>
             ordered_desc (lsort xs)
             \<and> (\<forall>v. filter (\<lambda>r. expected_profit r = v) (lsort xs)
                    = filter (\<lambda>r. expected_profit r = v) xs)))"

text \<open>
  One pair of functions that keep these promises: they sort by a key that orders the
  floats other than \<^verbatim>\<open>nan\<close> as \<^verbatim>\<open><\<close> does, and return a list with a \<^verbatim>\<open>nan\<close> in it
  as it is.
\<close>

fun fkey :: "pyfloat \<Rightarrow> int \<times> real" where
  "fkey NInf = (- 1, 0)"
| "fkey (Fin x) = (0, x)"
| "fkey PInf = (1, 0)"
| "fkey NaN = (2, 0)"

definition sample_sorted :: "pyfloat list \<Rightarrow> pyfloat list" where
  "sample_sorted xs = (if NaN \<in> set xs then xs else sort_key fkey xs)"

definition sample_list_sort :: "recommendation list \<Rightarrow> recommendation list" where
  "sample_list_sort xs =
     (if NaN \<in> set (map expected_profit xs) then xs
      else rev (sort_key (\<lambda>r. fkey (expected_profit r)) (rev xs)))"

section \<open>Sample data\<close>

text \<open>
  A record of the feed with a name and a numeric price, a recommendation with a given
  crop and profit, and the end-to-end scenario of the specification: one crop that suits
  kharif and red soil at a cost of 10000 per acre, a request for two acres in Mandya, a
  yield model that answers 5, and a feed that quotes ragi at 2000. \<open>ragi_nan\<close> is the
  recommendation of the same scenario when the feed quotes ragi at \<^verbatim>\<open>nan\<close>.
\<close>

definition quote_rec :: "string \<Rightarrow> pyfloat \<Rightarrow> mandi_record" where
  "quote_rec c p = \<lparr> commodity = Some c, modal_price = PyNum p \<rparr>"

definition rec_with :: "string \<Rightarrow> pyfloat \<Rightarrow> recommendation" where
  "rec_with c p = \<lparr> crop = c, predicted_yield = Fin 1, market_price_per_quintal = Fin 100,
       investment = Fin 1, expected_profit = p, roi_percent = Fin 0,
       risk_level = ''Stable'' \<rparr>"

definition ragi_row :: crop_row where
  "ragi_row = \<lparr> crop_id = 1, crop_name = ''Ragi'', total_cost_per_acre = Fin 10000,
       season_kharif = 1, season_rabi = 0, soil_black = 0, soil_red = 1, soil_alluvial = 0 \<rparr>"

definition fallow_row :: crop_row where
  "fallow_row = \<lparr> crop_id = 2, crop_name = ''Wheat'', total_cost_per_acre = Fin 8000,
       season_kharif = 0, season_rabi = 0, soil_black = 0, soil_red = 0, soil_alluvial = 0 \<rparr>"

definition mandya_request :: request where
  "mandya_request = \<lparr> district = ''Mandya'', season = ''Kharif'', soil = ''Red'',
       rainfall = PyNum (Fin 800), irrigation = ''Borewell'', land_area = PyNum (Fin 2),
       profit = PyNum (Fin 50000) \<rparr>"

definition ragi_recommendation :: recommendation where
  "ragi_recommendation = \<lparr> crop = ''Ragi'', predicted_yield = Fin 5,
       market_price_per_quintal = Fin 2000, investment = Fin 20000,
       expected_profit = Fin 0, roi_percent = Fin 0, risk_level = ''Stable'' \<rparr>"

definition ragi_nan :: recommendation where
  "ragi_nan = \<lparr> crop = ''Ragi'', predicted_yield = Fin 5,
       market_price_per_quintal = NaN, investment = Fin 20000,
       expected_profit = NaN, roi_percent = NaN, risk_level = ''Stable'' \<rparr>"

section \<open>Comparisons and the sorts\<close>

lemma f_lt_NaN: "\<not> f_lt NaN b" "\<not> f_lt a NaN"
  by (cases b; simp) (cases a; simp)

lemma f_le_NaN: "\<not> f_le NaN b" "\<not> f_le a NaN"
  by (auto simp: f_le_def f_eq_def f_lt_NaN)

lemma f_le_Fin: "f_le (Fin x) (Fin y) = (x \<le> y)"
  by (auto simp: f_le_def f_eq_def)

lemma fkey_le:
  "a \<noteq> NaN \<Longrightarrow> b \<noteq> NaN \<Longrightarrow> (fkey a \<le> fkey b) = f_le a b"
  by (cases a; cases b) (auto simp: f_le_def f_eq_def)

lemma fkey_inj: "fkey a = fkey b \<Longrightarrow> a = b"
  by (cases a; cases b) auto

lemma sorted_fkey:
  assumes "NaN \<notin> set xs"
  shows "sorted (map fkey xs) = sorted_wrt f_le xs"
proof -
  have "sorted_wrt (\<lambda>a b. fkey a \<le> fkey b) xs = sorted_wrt f_le xs"
  proof
    assume "sorted_wrt (\<lambda>a b. fkey a \<le> fkey b) xs"
    then show "sorted_wrt f_le xs"
      by (rule sorted_wrt_mono_rel[rotated]) (use assms fkey_le in metis)
  next
    assume "sorted_wrt f_le xs"
    then show "sorted_wrt (\<lambda>a b. fkey a \<le> fkey b) xs"
      by (rule sorted_wrt_mono_rel[rotated]) (use assms fkey_le in metis)
  qed
  then show ?thesis by (simp add: sorted_wrt_map)
qed

lemma sample_sorted_ok: "sorted_ok sample_sorted"
  unfolding sorted_ok_def
proof (intro allI conjI impI)
  fix xs show "mset (sample_sorted xs) = mset xs" by (simp add: sample_sorted_def)
next
  fix xs assume n: "NaN \<notin> set xs"
  then have "NaN \<notin> set (sort_key fkey xs)" by simp
  from sorted_fkey[OF this] have "sorted_wrt f_le (sort_key fkey xs)" by simp
  with n show "sorted_wrt f_le (sample_sorted xs)" by (simp add: sample_sorted_def)
qed

lemma sorted_ok_mset: "sorted_ok srt \<Longrightarrow> mset (srt xs) = mset xs"
  by (simp add: sorted_ok_def)



lemma sorted_ok_single: "sorted_ok srt \<Longrightarrow> srt [x] = [x]"
proof -
  assume "sorted_ok srt"
  then have "mset (srt [x]) = {#x#}" using sorted_ok_mset[of srt "[x]"] by simp
  then show ?thesis by (simp add: mset_single_iff_right)
qed


lemma list_sort_ok_mset: "list_sort_ok lsort \<Longrightarrow> mset (lsort xs) = mset xs"
  by (simp add: list_sort_ok_def)

lemma list_sort_ok_set: "list_sort_ok lsort \<Longrightarrow> set (lsort xs) = set xs"
  by (metis list_sort_ok_mset set_mset_mset)

lemma list_sort_ok_length: "list_sort_ok lsort \<Longrightarrow> length (lsort xs) = length xs"
  by (metis list_sort_ok_mset size_mset)

lemma list_sort_ok_single: "list_sort_ok lsort \<Longrightarrow> lsort [x] = [x]"
proof -
  assume "list_sort_ok lsort"
  then have "mset (lsort [x]) = {#x#}" using list_sort_ok_mset[of lsort "[x]"] by simp
  then show ?thesis by (simp add: mset_single_iff_right)
qed

lemma list_sort_ok_Nil: "list_sort_ok lsort \<Longrightarrow> lsort [] = []"
  using list_sort_ok_mset[of lsort "[]"] by simp

lemma sample_list_sort_ok: "list_sort_ok sample_list_sort"
  unfolding list_sort_ok_def
proof (intro allI conjI impI)
  fix xs :: "recommendation list" show "mset (sample_list_sort xs) = mset xs" by (simp add: sample_list_sort_def)
next
  fix xs :: "recommendation list" assume n: "NaN \<notin> set (map expected_profit xs)"
  let ?k = "\<lambda>r. fkey (expected_profit r)"
  let ?ys = "sort_key ?k (rev xs)"
  have "sorted (map ?k ?ys)" by (rule sorted_sort_key)
  then have "sorted_wrt (\<lambda>a b. fkey (expected_profit a) \<le> fkey (expected_profit b)) ?ys"
    by (simp add: sorted_wrt_map)
  then have "sorted_wrt (\<lambda>a b. f_le (expected_profit a) (expected_profit b)) ?ys"
  proof (rule sorted_wrt_mono_rel[rotated])
    fix a b assume ab: "a \<in> set ?ys" "b \<in> set ?ys"
      and le: "fkey (expected_profit a) \<le> fkey (expected_profit b)"
    from ab have "a \<in> set xs" "b \<in> set xs" by simp_all
    with n have "expected_profit a \<noteq> NaN" "expected_profit b \<noteq> NaN"
      by force+
    with le show "f_le (expected_profit a) (expected_profit b)" by (simp add: fkey_le)
  qed
  then have "ordered_desc (rev ?ys)" by (simp add: ordered_desc_def sorted_wrt_rev)
  with n show "ordered_desc (sample_list_sort xs)" by (simp add: sample_list_sort_def)
next
  fix xs :: "recommendation list" and v assume n: "NaN \<notin> set (map expected_profit xs)"
  let ?k = "\<lambda>r. fkey (expected_profit r)"
  have e: "(\<lambda>r. expected_profit r = v) = (\<lambda>r. ?k r = fkey v)"
    using fkey_inj by auto
  have "filter (\<lambda>r. ?k r = fkey v) (rev (sort_key ?k (rev xs)))
      = rev (filter (\<lambda>r. ?k r = fkey v) (sort_key ?k (rev xs)))"
    by (simp add: rev_filter)
  also have "\<dots> = rev (filter (\<lambda>r. ?k r = fkey v) (rev xs))"
    by (simp only: sort_key_stable)
  also have "\<dots> = filter (\<lambda>r. ?k r = fkey v) xs"
    by (simp add: rev_filter)
  finally show "filter (\<lambda>r. expected_profit r = v) (sample_list_sort xs)
      = filter (\<lambda>r. expected_profit r = v) xs"
    using n by (simp add: sample_list_sort_def e)
qed

section \<open>The aggregation of the feed\<close>

lemma add_record_quote:
  "add_record pf r d =
     (case quote_of pf r of
        None \<Rightarrow> d
      | Some (k, p) \<Rightarrow>
          if \<not> f_lt p (Fin 100) \<and> \<not> f_gt p (Fin 30000) then dict_append k p d else d)"
  by (auto simp: add_record_def quote_of_def split: option.splits sum.splits)

lemma map_of_dict_append:
  "map_of (dict_append k p d) k' =
     (if k' = k then Some (prices_of d k @ [p]) else map_of d k')"
  by (induction k p d rule: dict_append.induct) (auto simp: prices_of_def)

lemma prices_of_dict_append:
  "prices_of (dict_append k p d) k' = prices_of d k' @ (if k' = k then [p] else [])"
  by (simp add: prices_of_def map_of_dict_append split: option.splits)

lemma surviving_prices_Nil: "surviving_prices pf [] k = []"
  by (simp add: surviving_prices_def)

lemma surviving_prices_Cons:
  "surviving_prices pf (r # rs) k =
     (case quote_of pf r of
        None \<Rightarrow> []
      | Some (k', p) \<Rightarrow>
          if k' = k \<and> \<not> f_lt p (Fin 100) \<and> \<not> f_gt p (Fin 30000) then [p] else [])
     @ surviving_prices pf rs k"
  by (auto simp: surviving_prices_def split: option.splits)

lemma surviving_prices_append:
  "surviving_prices pf (xs @ ys) k = surviving_prices pf xs k @ surviving_prices pf ys k"
  by (induction xs) (simp_all add: surviving_prices_Nil surviving_prices_Cons)

lemma prices_of_add_record:
  "prices_of (add_record pf r d) k = prices_of d k @ surviving_prices pf [r] k"
  by (auto simp: add_record_quote surviving_prices_Cons surviving_prices_Nil
      prices_of_dict_append split: option.splits)

lemma prices_of_fold:
  "prices_of (fold (add_record pf) rs d) k = prices_of d k @ surviving_prices pf rs k"
proof (induction rs arbitrary: d)
  case Nil
  then show ?case by (simp add: surviving_prices_Nil)
next
  case (Cons r rs)
  have "surviving_prices pf (r # rs) k = surviving_prices pf [r] k @ surviving_prices pf rs k"
    using surviving_prices_append[of pf "[r]" rs k] by simp
  with Cons show ?case by (simp add: prices_of_add_record)
qed

lemma prices_of_collect:
  "prices_of (collect_prices pf rs) k = surviving_prices pf rs k"
proof -
  have "prices_of [] k = []" by (simp add: prices_of_def)
  then show ?thesis by (simp add: collect_prices_def prices_of_fold)
qed











lemma median_single: "sorted_ok srt \<Longrightarrow> median srt [x] = Inr x"
  by (simp add: median_def sorted_ok_single)




lemma quote_of_Some:
  assumes "commodity q = Some c" and "c \<noteq> []" and "truthy (modal_price q)"
    and "py_float pf (modal_price q) = Inr p"
  shows "quote_of pf q = Some (strip (lower c), p)"
  using assms by (simp add: quote_of_def)

lemma in_range_Fin: "in_range (Fin x) = (100 \<le> x \<and> x \<le> 30000)"
  by (simp add: in_range_def f_le_Fin)

lemma not_discarded_Fin:
  "(\<not> f_lt (Fin x) (Fin 100) \<and> \<not> f_gt (Fin x) (Fin 30000)) = in_range (Fin x)"
  by (auto simp: in_range_Fin f_gt_def)

text \<open>
  A quote with a finite price is kept if and only if the price lies in the inclusive
  range from 100 to 30000, wherever it stands in the feed.
\<close>

lemma finite_quote_kept_iff_in_range:
  assumes "commodity q = Some c" and "c \<noteq> []" and "truthy (modal_price q)"
    and "py_float pf (modal_price q) = Inr (Fin p)"
  shows "prices_of (collect_prices pf (pre @ q # post)) k =
           prices_of (collect_prices pf pre) k
           @ (if k = strip (lower c) \<and> 100 \<le> p \<and> p \<le> 30000 then [Fin p] else [])
           @ prices_of (collect_prices pf post) k"
proof -
  have "surviving_prices pf (pre @ q # post) k =
          surviving_prices pf pre k @ surviving_prices pf (q # post) k"
    by (rule surviving_prices_append)
  with quote_of_Some[OF assms] show ?thesis
    by (auto simp: prices_of_collect surviving_prices_Cons f_gt_def)
qed

text \<open>
  Claim C3 says that a quote with a price that \<^verbatim>\<open>float\<close> reads is kept if and only if
  the price lies in the inclusive range from 100 to 30000. The code keeps a quote whose
  price is \<^verbatim>\<open>nan\<close>: \<^verbatim>\<open>float\<close> reads it, it is true, and both tests of the outlier
  filtering are false of it, so it is appended, although it is not in the range. Of the
  quotes 250, \<^verbatim>\<open>nan\<close> and 99 of one commodity the code keeps 250 and \<^verbatim>\<open>nan\<close>.
\<close>

theorem nan_quote_kept:
  "py_float pf (modal_price (quote_rec ''Ragi'' NaN)) = Inr NaN
   \<and> \<not> in_range NaN
   \<and> collect_prices pf [quote_rec ''Ragi'' NaN] = [(''ragi'', [NaN])]
   \<and> collect_prices pf [quote_rec ''Rice'' (Fin 250), quote_rec ''Rice'' NaN,
         quote_rec ''Rice'' (Fin 99)] = [(''rice'', [Fin 250, NaN])]"
  by (simp add: in_range_def f_le_NaN collect_prices_def add_record_def quote_rec_def f_gt_def
      strip_def lower_def lower_char_def is_space_def)




section \<open>Resolving a crop name\<close>

lemma find_commodity_Some:
  "find_commodity cn pd = Some (k, p) \<Longrightarrow>
     (k, p) \<in> set pd \<and> str_in cn k
     \<and> \<not> (str_in ''chilli'' cn \<and> str_in ''dry'' k \<and> str_in ''green'' cn)"
  by (induction cn pd rule: find_commodity.induct) (auto split: if_splits)

text \<open>
  Claim C1, as the specification states it, fails: the crop name \<^verbatim>\<open>chilli\<close> contains
  \<^verbatim>\<open>chilli\<close> and not \<^verbatim>\<open>dry\<close>, and \<^verbatim>\<open>get_price_for_crop\<close> returns for it the price of
  the commodity \<^verbatim>\<open>dry chilli\<close>, because the code skips a dry commodity only when the crop
  name contains \<^verbatim>\<open>green\<close>.
\<close>

theorem chilli_matches_dry_chilli:
  "str_in ''chilli'' (lower ''chilli'') \<and> \<not> str_in ''dry'' (lower ''chilli'')
   \<and> str_in ''dry'' ''dry chilli''
   \<and> find_commodity (lower ''chilli'') [(''dry chilli'', Fin 5000)]
       = Some (''dry chilli'', Fin 5000)
   \<and> get_price_for_crop ''chilli'' [(''dry chilli'', Fin 5000)] = Fin 5000"
  by (simp add: get_price_for_crop_def lower_def lower_char_def)

text \<open>
  Claim C1, amended: for every price index and every crop name whose lower-cased form
  contains both \<^verbatim>\<open>chilli\<close> and \<^verbatim>\<open>green\<close>, the entry at which \<^verbatim>\<open>get_price_for_crop\<close>
  stops has a key that does not contain \<^verbatim>\<open>dry\<close>; the key is one of the index, it
  contains the lower-cased crop name, and its price is the result.
\<close>

theorem green_chilli_skips_dry:
  assumes "str_in ''chilli'' (lower cn)" and "str_in ''green'' (lower cn)"
    and "find_commodity (lower cn) pd = Some (k, p)"
  shows "\<not> str_in ''dry'' k \<and> (k, p) \<in> set pd \<and> str_in (lower cn) k
    \<and> get_price_for_crop cn pd = p"
  using assms find_commodity_Some[OF assms(3)] by (simp add: get_price_for_crop_def)

theorem green_chilli_skips_dry_witness:
  "str_in ''chilli'' (lower ''Green Chilli'') \<and> str_in ''green'' (lower ''Green Chilli'')
   \<and> find_commodity (lower ''Green Chilli'')
        [(''dry green chilli'', Fin 9000), (''green chilli'', Fin 3000)]
       = Some (''green chilli'', Fin 3000)
   \<and> \<not> str_in ''dry'' ''green chilli''
   \<and> get_price_for_crop ''Green Chilli''
        [(''dry green chilli'', Fin 9000), (''green chilli'', Fin 3000)] = Fin 3000"
proof -
  have a: "str_in ''chilli'' (lower ''Green Chilli'')"
    by (simp add: lower_def lower_char_def)
  have b: "str_in ''green'' (lower ''Green Chilli'')"
    by (simp add: lower_def lower_char_def)
  have c: "find_commodity (lower ''Green Chilli'')
        [(''dry green chilli'', Fin 9000), (''green chilli'', Fin 3000)]
       = Some (''green chilli'', Fin 3000)"
    by (simp add: lower_def lower_char_def)
  from green_chilli_skips_dry[OF a b c] a b c show ?thesis by simp
qed

section \<open>The season and soil filter\<close>

text \<open>
  Claim C2, as the specification states it, fails: under the season \<^verbatim>\<open>summer\<close> and the
  soil \<^verbatim>\<open>sandy\<close>, neither of which the code knows, a crop whose five flags are all 0
  passes the filter.
\<close>

theorem unknown_season_soil_passes:
  "passes_filter ''summer'' ''sandy'' fallow_row
   \<and> season_kharif fallow_row = 0 \<and> season_rabi fallow_row = 0
   \<and> soil_black fallow_row = 0 \<and> soil_red fallow_row = 0 \<and> soil_alluvial fallow_row = 0"
  by (simp add: passes_filter_def fallow_row_def lower_def lower_char_def)

text \<open>
  Claim C2, amended: a crop passes the filter exactly when its flag is 1 for the season
  of the request, if that season is (case-insensitively) kharif or rabi, and its flag is
  1 for the soil of the request, if that soil is black, red or alluvial. So a crop is
  excluded only when the request names a known season or soil whose flag on the crop is
  not 1: for a season that is not kharif or rabi the filter makes no test of the season,
  for a soil that is not black, red or alluvial it makes no test of the soil, and when
  neither is known every crop passes.
\<close>

theorem filter_checks_named_axes_only:
  "passes_filter se so c =
     ((lower se = ''kharif'' \<longrightarrow> season_kharif c = 1)
      \<and> (lower se = ''rabi'' \<longrightarrow> season_rabi c = 1)
      \<and> (lower so = ''black'' \<longrightarrow> soil_black c = 1)
      \<and> (lower so = ''red'' \<longrightarrow> soil_red c = 1)
      \<and> (lower so = ''alluvial'' \<longrightarrow> soil_alluvial c = 1))
   \<and> (lower se \<noteq> ''kharif'' \<and> lower se \<noteq> ''rabi'' \<longrightarrow>
      passes_filter se so c =
        ((lower so = ''black'' \<longrightarrow> soil_black c = 1)
         \<and> (lower so = ''red'' \<longrightarrow> soil_red c = 1)
         \<and> (lower so = ''alluvial'' \<longrightarrow> soil_alluvial c = 1)))
   \<and> (lower so \<noteq> ''black'' \<and> lower so \<noteq> ''red'' \<and> lower so \<noteq> ''alluvial'' \<longrightarrow>
      passes_filter se so c =
        ((lower se = ''kharif'' \<longrightarrow> season_kharif c = 1)
         \<and> (lower se = ''rabi'' \<longrightarrow> season_rabi c = 1)))
   \<and> (lower se \<noteq> ''kharif'' \<and> lower se \<noteq> ''rabi''
       \<and> lower so \<noteq> ''black'' \<and> lower so \<noteq> ''red'' \<and> lower so \<noteq> ''alluvial'' \<longrightarrow>
      passes_filter se so c)"
  by (auto simp: passes_filter_def)

theorem filter_checks_named_axes_only_witness:
  "lower ''Zaid'' \<noteq> ''kharif'' \<and> lower ''Zaid'' \<noteq> ''rabi''
   \<and> lower ''Sandy'' \<noteq> ''black'' \<and> lower ''Sandy'' \<noteq> ''red'' \<and> lower ''Sandy'' \<noteq> ''alluvial''
   \<and> lower ''Kharif'' = ''kharif'' \<and> lower ''Red'' = ''red''
   \<and> season_kharif ragi_row = 1 \<and> soil_red ragi_row = 1
   \<and> passes_filter ''Zaid'' ''Sandy'' fallow_row
   \<and> passes_filter ''Zaid'' ''Red'' ragi_row
   \<and> \<not> passes_filter ''Zaid'' ''Red'' fallow_row
   \<and> \<not> passes_filter ''Kharif'' ''Sandy'' fallow_row
   \<and> passes_filter ''Kharif'' ''Red'' ragi_row
   \<and> \<not> passes_filter ''Kharif'' ''Red'' fallow_row"
proof -
  have a: "lower ''Zaid'' \<noteq> ''kharif'' \<and> lower ''Zaid'' \<noteq> ''rabi''"
    by (simp add: lower_def lower_char_def)
  have b: "lower ''Sandy'' \<noteq> ''black'' \<and> lower ''Sandy'' \<noteq> ''red''
      \<and> lower ''Sandy'' \<noteq> ''alluvial''"
    by (simp add: lower_def lower_char_def)
  have c: "lower ''Red'' = ''red''" "lower ''Kharif'' = ''kharif''"
    by (simp_all add: lower_def lower_char_def)
  have d: "soil_red ragi_row = 1" "season_kharif ragi_row = 1" "soil_red fallow_row = 0"
    "season_kharif fallow_row = 0"
    by (simp_all add: ragi_row_def fallow_row_def)
  from a b c d
    filter_checks_named_axes_only[of "''Zaid''" "''Sandy''" fallow_row]
    filter_checks_named_axes_only[of "''Zaid''" "''Red''" ragi_row]
    filter_checks_named_axes_only[of "''Zaid''" "''Red''" fallow_row]
    filter_checks_named_axes_only[of "''Kharif''" "''Sandy''" fallow_row]
    filter_checks_named_axes_only[of "''Kharif''" "''Red''" ragi_row]
    filter_checks_named_axes_only[of "''Kharif''" "''Red''" fallow_row]
  show ?thesis by simp
qed

section \<open>Return on investment and risk\<close>

lemma py_div_pos: "f_gt y (Fin 0) \<Longrightarrow> \<exists>q. py_div x y = Inr q"
  by (cases y; cases x) (auto simp: f_gt_def)

lemma compute_roi_Inr: "\<exists>r. compute_roi x y = Inr r"
proof (cases "f_gt y (Fin 0)")
  case True
  from py_div_pos[OF this, of x] obtain q where "py_div x y = Inr q" by blast
  with True show ?thesis by (simp add: compute_roi_def)
next
  case False
  then show ?thesis by (simp add: compute_roi_def)
qed

lemma compute_roi_no_error: "compute_roi x y \<noteq> Inl e"
  using compute_roi_Inr[of x y] by auto

lemma evaluate_crop_no_error:
  "evaluate_crop model pd dm se so rf ir la c \<noteq> Inl e"
  using compute_roi_no_error
  by (auto simp: evaluate_crop_def Let_def split: sum.splits)

lemma evaluate_all_no_error:
  "evaluate_all model pd dm se so rf ir la cs \<noteq> Inl e"
  by (induction cs) (auto simp: evaluate_crop_no_error split: sum.splits option.splits)

text \<open>
  Claim C5: the risk tier is \<^verbatim>\<open>High Reward (High Market Volatility)\<close> exactly when the
  ROI is strictly above 200, \<^verbatim>\<open>Moderate\<close> exactly when it is above 80 and at most 200,
  and \<^verbatim>\<open>Stable\<close> otherwise, which for a finite ROI is exactly when it is at most 80; an
  ROI of 200 is \<^verbatim>\<open>Moderate\<close> and an ROI of 80 is \<^verbatim>\<open>Stable\<close>. The same holds of the
  infinities and of \<^verbatim>\<open>nan\<close> with the comparisons of floats: \<^verbatim>\<open>nan\<close> is \<^verbatim>\<open>Stable\<close>.
\<close>

theorem risk_tiers:
  "(risk_of (Fin roi) = ''High Reward (High Market Volatility)'' \<longleftrightarrow> roi > 200)
   \<and> (risk_of (Fin roi) = ''Moderate'' \<longleftrightarrow> 80 < roi \<and> roi \<le> 200)
   \<and> (risk_of (Fin roi) = ''Stable'' \<longleftrightarrow> roi \<le> 80)
   \<and> risk_of (Fin 200) = ''Moderate'' \<and> risk_of (Fin 80) = ''Stable''
   \<and> (risk_of x = ''High Reward (High Market Volatility)'' \<longleftrightarrow> f_gt x (Fin 200))
   \<and> (risk_of x = ''Moderate'' \<longleftrightarrow> f_gt x (Fin 80) \<and> f_le x (Fin 200))
   \<and> (risk_of x = ''Stable'' \<longleftrightarrow> \<not> f_gt x (Fin 80))
   \<and> risk_of NaN = ''Stable''"
proof -
  have a: "(risk_of (Fin roi) = ''High Reward (High Market Volatility)'' \<longleftrightarrow> roi > 200)
   \<and> (risk_of (Fin roi) = ''Moderate'' \<longleftrightarrow> 80 < roi \<and> roi \<le> 200)
   \<and> (risk_of (Fin roi) = ''Stable'' \<longleftrightarrow> roi \<le> 80)
   \<and> risk_of (Fin 200) = ''Moderate'' \<and> risk_of (Fin 80) = ''Stable''"
    by (auto simp: risk_of_def f_gt_def)
  have b: "(risk_of x = ''High Reward (High Market Volatility)'' \<longleftrightarrow> f_gt x (Fin 200))
   \<and> (risk_of x = ''Moderate'' \<longleftrightarrow> f_gt x (Fin 80) \<and> f_le x (Fin 200))
   \<and> (risk_of x = ''Stable'' \<longleftrightarrow> \<not> f_gt x (Fin 80))"
    by (cases x) (auto simp: risk_of_def f_gt_def f_le_def f_eq_def)
  have c: "risk_of NaN = ''Stable''" by (simp add: risk_of_def f_gt_def)
  from a b c show ?thesis by blast
qed

text \<open>
  Claim C6: when the investment is positive the ROI is the expected profit divided by the
  investment, times 100; when the investment is zero or negative the ROI is 0, as it is
  whenever the test \<^verbatim>\<open>investment > 0\<close> is false. The division is never reached with a
  zero divisor: neither the computation of the ROI, nor the evaluation of a crop, nor the
  loop over the catalog raises.
\<close>

theorem roi_guard:
  "(0 < iv \<longrightarrow> compute_roi (Fin ep) (Fin iv) = Inr (Fin (ep / iv * 100)))
   \<and> (iv \<le> 0 \<longrightarrow> compute_roi (Fin ep) (Fin iv) = Inr (Fin 0))
   \<and> compute_roi (Fin ep) (Fin 0) = Inr (Fin 0)
   \<and> (\<not> f_gt y (Fin 0) \<longrightarrow> compute_roi x y = Inr (Fin 0))
   \<and> compute_roi x y \<noteq> Inl e
   \<and> evaluate_crop model pd dm se so rf ir la c \<noteq> Inl e1
   \<and> evaluate_all model pd dm se so rf ir la cs \<noteq> Inl e2"
proof -
  have "(0 < iv \<longrightarrow> compute_roi (Fin ep) (Fin iv) = Inr (Fin (ep / iv * 100)))
   \<and> (iv \<le> 0 \<longrightarrow> compute_roi (Fin ep) (Fin iv) = Inr (Fin 0))
   \<and> compute_roi (Fin ep) (Fin 0) = Inr (Fin 0)
   \<and> (\<not> f_gt y (Fin 0) \<longrightarrow> compute_roi x y = Inr (Fin 0))"
    by (simp add: compute_roi_def f_gt_def)
  then show ?thesis
    by (simp add: compute_roi_no_error evaluate_crop_no_error evaluate_all_no_error)
qed

theorem roi_guard_witness:
  "(0::real) < 20000 \<and> compute_roi (Fin 5000) (Fin 20000) = Inr (Fin 25)
   \<and> (-3::real) \<le> 0 \<and> compute_roi (Fin 5000) (Fin (-3)) = Inr (Fin 0)
   \<and> compute_roi (Fin 5000) (Fin 0) = Inr (Fin 0)
   \<and> \<not> f_gt NaN (Fin 0) \<and> compute_roi (Fin 5000) NaN = Inr (Fin 0)"
  using roi_guard[of 20000 5000] roi_guard[of "-3" 5000] roi_guard[of 1 1 NaN "Fin 5000"]
  by (simp add: f_gt_def)

section \<open>Ranking\<close>

lemma sorted_wrt_neighbour:
  assumes "sorted_wrt P xs" and "r \<in> set xs" and "2 \<le> length xs"
  shows "\<exists>y \<in> set xs. P r y \<or> P y r"
proof -
  from assms(2) obtain as bs where xs: "xs = as @ r # bs" by (auto dest: split_list)
  show ?thesis
  proof (cases bs)
    case Nil
    with xs assms(3) have "as \<noteq> []" by auto
    then obtain a where a: "a \<in> set as" by (cases as) auto
    with assms(1) xs have "P a r" by (auto simp: sorted_wrt_append)
    with a xs show ?thesis by auto
  next
    case (Cons b bs')
    with assms(1) xs have "P r b" by (auto simp: sorted_wrt_append)
    with Cons xs show ?thesis by auto
  qed
qed

lemma rank_short:
  assumes "list_sort_ok lsort" and "length recs \<le> 3"
  shows "rank lsort recs = lsort recs"
  using assms by (simp add: rank_def list_sort_ok_length)

text \<open>
  Claim C7 says that the ranker returns every list of candidates ordered by expected
  profit, highest first. The code does not when a profit is \<^verbatim>\<open>nan\<close>: every comparison
  with \<^verbatim>\<open>nan\<close> is false, so whatever order \<^verbatim>\<open>list.sort\<close> gives to two or three candidates
  of which one has the profit \<^verbatim>\<open>nan\<close>, all of them are returned and they are not in
  descending order. A sort that leaves such a list as it is returns the profits 50,
  \<^verbatim>\<open>nan\<close>, 200 for the candidates 50, \<^verbatim>\<open>nan\<close>, 200 and 75.
\<close>

theorem nan_profit_breaks_order:
  assumes "list_sort_ok lsort" and "NaN \<in> set (map expected_profit recs)"
    and "2 \<le> length recs" and "length recs \<le> 3"
  shows "mset (rank lsort recs) = mset recs \<and> \<not> ordered_desc (rank lsort recs)"
proof -
  have r: "rank lsort recs = lsort recs" using assms(1,4) by (rule rank_short)
  have m: "mset (lsort recs) = mset recs" using assms(1) by (rule list_sort_ok_mset)
  from assms(2) obtain x where x: "x \<in> set recs" and n: "expected_profit x = NaN" by auto
  from x have xs: "x \<in> set (lsort recs)" using list_sort_ok_set[OF assms(1)] by simp
  have l: "2 \<le> length (lsort recs)" using assms(1,3) by (simp add: list_sort_ok_length)
  have "\<not> ordered_desc (lsort recs)"
  proof
    assume "ordered_desc (lsort recs)"
    then have "sorted_wrt (\<lambda>a b. f_le (expected_profit b) (expected_profit a)) (lsort recs)"
      by (simp add: ordered_desc_def)
    from sorted_wrt_neighbour[OF this xs l] n show False by (auto simp: f_le_NaN)
  qed
  with r m show ?thesis by simp
qed

theorem nan_profit_breaks_order_witness:
  "list_sort_ok sample_list_sort
   \<and> NaN \<in> set (map expected_profit
        [rec_with ''a'' (Fin 50), rec_with ''b'' NaN, rec_with ''c'' (Fin 200)])
   \<and> 2 \<le> length [rec_with ''a'' (Fin 50), rec_with ''b'' NaN, rec_with ''c'' (Fin 200)]
   \<and> length [rec_with ''a'' (Fin 50), rec_with ''b'' NaN, rec_with ''c'' (Fin 200)] \<le> 3
   \<and> map expected_profit (rank sample_list_sort
        [rec_with ''a'' (Fin 50), rec_with ''b'' NaN, rec_with ''c'' (Fin 200)])
      = [Fin 50, NaN, Fin 200]
   \<and> \<not> ordered_desc (rank sample_list_sort
        [rec_with ''a'' (Fin 50), rec_with ''b'' NaN, rec_with ''c'' (Fin 200)])
   \<and> map expected_profit (rank sample_list_sort
        [rec_with ''a'' (Fin 50), rec_with ''b'' NaN, rec_with ''c'' (Fin 200),
         rec_with ''d'' (Fin 75)])
      = [Fin 50, NaN, Fin 200]"
proof -
  let ?l = "[rec_with ''a'' (Fin 50), rec_with ''b'' NaN, rec_with ''c'' (Fin 200)]"
  have a: "NaN \<in> set (map expected_profit ?l)" by (simp add: rec_with_def)
  have b: "2 \<le> length ?l" "length ?l \<le> 3" by simp_all
  have c: "map expected_profit (rank sample_list_sort ?l) = [Fin 50, NaN, Fin 200]"
    by (simp add: rank_def sample_list_sort_def rec_with_def)
  have d: "map expected_profit (rank sample_list_sort
        [rec_with ''a'' (Fin 50), rec_with ''b'' NaN, rec_with ''c'' (Fin 200),
         rec_with ''d'' (Fin 75)]) = [Fin 50, NaN, Fin 200]"
    by (simp add: rank_def sample_list_sort_def rec_with_def)
  from nan_profit_breaks_order[OF sample_list_sort_ok a b] sample_list_sort_ok a b c d
  show ?thesis by simp
qed

text \<open>
  When no profit is \<^verbatim>\<open>nan\<close> the ranker returns the first three elements of the list of
  candidates ordered by expected profit, highest first, in which candidates of equal
  profit keep the order of their evaluation.
\<close>

lemma rank_top3_without_nan:
  assumes "list_sort_ok lsort" and "NaN \<notin> set (map expected_profit recs)"
  shows "(\<exists>ys. mset ys = mset recs \<and> ordered_desc ys
           \<and> (\<forall>v. filter (\<lambda>r. expected_profit r = v) ys
                  = filter (\<lambda>r. expected_profit r = v) recs)
           \<and> rank lsort recs = take 3 ys)
         \<and> length (rank lsort recs) = min 3 (length recs)"
proof -
  from assms have "mset (lsort recs) = mset recs \<and> ordered_desc (lsort recs)
           \<and> (\<forall>v. filter (\<lambda>r. expected_profit r = v) (lsort recs)
                  = filter (\<lambda>r. expected_profit r = v) recs)"
    by (simp add: list_sort_ok_def)
  then have "\<exists>ys. mset ys = mset recs \<and> ordered_desc ys
           \<and> (\<forall>v. filter (\<lambda>r. expected_profit r = v) ys
                  = filter (\<lambda>r. expected_profit r = v) recs)
           \<and> rank lsort recs = take 3 ys"
    by (intro exI[of _ "lsort recs"]) (simp add: rank_def)
  moreover have "length (rank lsort recs) = min 3 (length recs)"
    using assms(1) by (simp add: rank_def list_sort_ok_length)
  ultimately show ?thesis by blast
qed

lemma sample_rank_example:
  "map expected_profit (rank sample_list_sort
      [rec_with ''a'' (Fin 50), rec_with ''b'' (Fin 200), rec_with ''c'' (Fin 75),
       rec_with ''d'' (Fin 10)]) = [Fin 200, Fin 75, Fin 50]
   \<and> map crop (rank sample_list_sort
      [rec_with ''a'' (Fin 50), rec_with ''b'' (Fin 200), rec_with ''c'' (Fin 50),
       rec_with ''d'' (Fin 50)]) = [''b'', ''a'', ''c'']"
  by (simp add: rank_def sample_list_sort_def rec_with_def)

section \<open>The recommendations of a request\<close>

lemma set_rank: "list_sort_ok lsort \<Longrightarrow> set (rank lsort rs) \<subseteq> set rs"
proof -
  assume a: "list_sort_ok lsort"
  have "set (rank lsort rs) \<subseteq> set (lsort rs)"
    unfolding rank_def by (rule set_take_subset)
  then show ?thesis using list_sort_ok_set[OF a] by simp
qed

lemma evaluate_crop_Some:
  assumes "evaluate_crop model pd dm se so rf ir la c = Inr (Some r)"
  shows "passes_filter se so c \<and> \<not> f_eq (get_price_for_crop (crop_name c) pd) (Fin 0)
       \<and> crop r = crop_name c
       \<and> market_price_per_quintal r = f_round2 (get_price_for_crop (crop_name c) pd)"
  using assms
  by (auto simp: evaluate_crop_def Let_def split: if_splits sum.splits)

lemma evaluate_all_mem:
  "evaluate_all model pd dm se so rf ir la cs = Inr rs \<Longrightarrow> r \<in> set rs \<Longrightarrow>
     \<exists>c \<in> set cs. evaluate_crop model pd dm se so rf ir la c = Inr (Some r)"
proof (induction cs arbitrary: rs)
  case Nil
  then show ?case by simp
next
  case (Cons c cs)
  show ?case
  proof (cases "evaluate_crop model pd dm se so rf ir la c")
    case (Inl e)
    with Cons.prems show ?thesis by simp
  next
    case (Inr res)
    show ?thesis
    proof (cases res)
      case None
      with Inr Cons.prems have "evaluate_all model pd dm se so rf ir la cs = Inr rs" by simp
      from Cons.IH[OF this Cons.prems(2)] show ?thesis by auto
    next
      case (Some r0)
      with Inr Cons.prems(1) obtain rs' where
        rs': "evaluate_all model pd dm se so rf ir la cs = Inr rs'"
        and rs: "rs = r0 # rs'" by (auto split: sum.splits)
      show ?thesis
      proof (cases "r = r0")
        case True
        with Inr Some show ?thesis by auto
      next
        case False
        with Cons.prems(2) rs have "r \<in> set rs'" by simp
        from Cons.IH[OF rs' this] show ?thesis by auto
      qed
    qed
  qed
qed

lemma predict_Inr:
  assumes "predict srt lsort pf model cm recs data = Inr out"
  shows "\<exists>rf la pd rs. py_float pf (rainfall data) = Inr rf
        \<and> py_float pf (land_area data) = Inr la
        \<and> build_price_dictionary srt pf recs = Inr pd
        \<and> evaluate_all model pd (district_mean_of (district data)) (season data) (soil data)
             rf (irrigation data) la cm = Inr rs
        \<and> out = rank lsort rs"
  using assms by (auto simp: predict_def split: sum.splits)

text \<open>
  Every recommendation that \<^verbatim>\<open>predict\<close> returns carries the name of a crop of the
  catalog that passed the filter and whose resolved price failed the test
  \<^verbatim>\<open>price == 0\<close>; the price it reports is that price rounded.
\<close>

lemma recommended_crops_filtered:
  assumes "list_sort_ok lsort"
    and "predict srt lsort pf model cm recs data = Inr out" and "r \<in> set out"
  shows "\<exists>pd c. build_price_dictionary srt pf recs = Inr pd \<and> c \<in> set cm
           \<and> crop r = crop_name c
           \<and> passes_filter (season data) (soil data) c
           \<and> \<not> f_eq (get_price_for_crop (crop_name c) pd) (Fin 0)
           \<and> market_price_per_quintal r = f_round2 (get_price_for_crop (crop_name c) pd)"
proof -
  from predict_Inr[OF assms(2)] obtain rf la pd rs where
    pd: "build_price_dictionary srt pf recs = Inr pd"
    and rs: "evaluate_all model pd (district_mean_of (district data)) (season data) (soil data)
             rf (irrigation data) la cm = Inr rs"
    and out: "out = rank lsort rs" by blast
  from assms(3) out set_rank[OF assms(1), of rs] have "r \<in> set rs" by auto
  from evaluate_all_mem[OF rs this] obtain c where c: "c \<in> set cm"
    and ev: "evaluate_crop model pd (district_mean_of (district data)) (season data) (soil data)
             rf (irrigation data) la c = Inr (Some r)" by blast
  from evaluate_crop_Some[OF ev] pd c show ?thesis by (intro exI[of _ pd] exI[of _ c]) simp
qed

lemma lower_ragi: "lower ''Ragi'' = ''ragi''"
  by (simp add: lower_def lower_char_def)

lemma strip_ragi: "strip ''ragi'' = ''ragi''"
  by (simp add: strip_def is_space_def)

lemma build_ragi:
  assumes "sorted_ok srt"
  shows "build_price_dictionary srt pf [quote_rec ''Ragi'' p]
     = (if p = Fin 0 \<or> f_lt p (Fin 100) \<or> f_gt p (Fin 30000) then Inr []
        else Inr [(''ragi'', p)])"
  using assms
  by (simp add: build_price_dictionary_def collect_prices_def add_record_def
      quote_rec_def lower_ragi strip_ragi median_single)

lemma price_ragi: "get_price_for_crop ''Ragi'' [(''ragi'', p)] = p"
  by (simp add: get_price_for_crop_def lower_ragi)

lemma round2_vals: "round2 5 = 5" "round2 2000 = 2000" "round2 20000 = 20000" "round2 0 = 0"
  by (simp_all add: round2_def Let_def)

lemma passes_ragi: "passes_filter ''Kharif'' ''Red'' ragi_row"
  by (simp add: passes_filter_def ragi_row_def lower_def lower_char_def)

lemma eval_ragi:
  "evaluate_crop (\<lambda>f. Fin 5) [(''ragi'', Fin 2000)] dm ''Kharif'' ''Red'' (Fin 800)
       ''Borewell'' (Fin 2) ragi_row = Inr (Some ragi_recommendation)"
proof -
  have n: "crop_name ragi_row = ''Ragi''" "total_cost_per_acre ragi_row = Fin 10000"
    by (simp_all add: ragi_row_def)
  show ?thesis
    by (simp add: evaluate_crop_def passes_ragi n price_ragi Let_def compute_roi_def
      f_eq_def f_gt_def f_sub_def round2_vals risk_of_def ragi_recommendation_def)
qed

lemma eval_ragi_nan:
  "evaluate_crop (\<lambda>f. Fin 5) [(''ragi'', NaN)] dm ''Kharif'' ''Red'' (Fin 800)
       ''Borewell'' (Fin 2) ragi_row = Inr (Some ragi_nan)"
proof -
  have n: "crop_name ragi_row = ''Ragi''" "total_cost_per_acre ragi_row = Fin 10000"
    by (simp_all add: ragi_row_def)
  show ?thesis
    by (simp add: evaluate_crop_def passes_ragi n price_ragi Let_def compute_roi_def
      f_eq_def f_gt_def f_sub_def round2_vals risk_of_def ragi_nan_def)
qed

lemma mandya_fields:
  "rainfall mandya_request = PyNum (Fin 800)" "land_area mandya_request = PyNum (Fin 2)"
  "profit mandya_request = PyNum (Fin 50000)" "season mandya_request = ''Kharif''"
  "soil mandya_request = ''Red''" "irrigation mandya_request = ''Borewell''"
  by (simp_all add: mandya_request_def)

lemma predict_ragi:
  assumes "sorted_ok srt" and "list_sort_ok lsort"
  shows "predict srt lsort pf (\<lambda>f. Fin 5) [ragi_row] [quote_rec ''Ragi'' (Fin 2000)]
       mandya_request = Inr [ragi_recommendation]"
  by (simp add: predict_def mandya_fields build_ragi[OF assms(1)] f_gt_def eval_ragi rank_def
      list_sort_ok_single[OF assms(2)])

lemma predict_ragi_nan:
  assumes "sorted_ok srt" and "list_sort_ok lsort"
  shows "predict srt lsort pf (\<lambda>f. Fin 5) [ragi_row] [quote_rec ''Ragi'' NaN]
       mandya_request = Inr [ragi_nan]"
  by (simp add: predict_def mandya_fields build_ragi[OF assms(1)] f_gt_def eval_ragi_nan
      rank_def list_sort_ok_single[OF assms(2)])

text \<open>
  Claim C8 says that every recommendation of the output belongs to a crop whose name
  resolved to a strictly positive price. The code recommends a crop whose price is
  \<^verbatim>\<open>nan\<close>: for a feed that quotes ragi at \<^verbatim>\<open>nan\<close> the index holds \<^verbatim>\<open>nan\<close> for ragi,
  the test \<^verbatim>\<open>price == 0\<close> is false of it, and \<^verbatim>\<open>predict\<close> returns a recommendation of
  ragi whose price is \<^verbatim>\<open>nan\<close>, which is not above 0.
\<close>

theorem nan_price_recommended:
  assumes "sorted_ok srt" and "list_sort_ok lsort"
  shows "predict srt lsort pf (\<lambda>f. Fin 5) [ragi_row] [quote_rec ''Ragi'' NaN] mandya_request
           = Inr [ragi_nan]
         \<and> passes_filter (season mandya_request) (soil mandya_request) ragi_row
         \<and> get_price_for_crop (crop_name ragi_row) [(''ragi'', NaN)] = NaN
         \<and> market_price_per_quintal ragi_nan = NaN
         \<and> \<not> f_gt (market_price_per_quintal ragi_nan) (Fin 0)"
  using predict_ragi_nan[OF assms] passes_ragi
  by (simp add: mandya_fields price_ragi ragi_row_def ragi_nan_def f_gt_def f_lt_NaN)

theorem nan_price_recommended_witness:
  "sorted_ok sample_sorted \<and> list_sort_ok sample_list_sort
   \<and> predict sample_sorted sample_list_sort (\<lambda>s. None) (\<lambda>f. Fin 5) [ragi_row]
        [quote_rec ''Ragi'' NaN] mandya_request = Inr [ragi_nan]
   \<and> market_price_per_quintal ragi_nan = NaN
   \<and> \<not> f_gt (market_price_per_quintal ragi_nan) (Fin 0)"
  using nan_price_recommended[OF sample_sorted_ok sample_list_sort_ok, of "\<lambda>s. None"]
    sample_sorted_ok sample_list_sort_ok
  by (simp add: f_gt_def f_lt_NaN)

text \<open>
  Claim C9: two requests that differ only in the field \<^verbatim>\<open>profit\<close>, each with a profit
  that \<^verbatim>\<open>float\<close> reads, get the same answer from \<^verbatim>\<open>predict\<close> for the same catalog,
  yield model and feed.
\<close>

theorem profit_unused:
  assumes "py_float pf p1 = Inr x1" and "py_float pf p2 = Inr x2"
  shows "predict srt lsort pf model cm recs (data\<lparr>profit := p1\<rparr>)
       = predict srt lsort pf model cm recs (data\<lparr>profit := p2\<rparr>)"
  using assms by (simp add: predict_def cong: sum.case_cong)

theorem profit_unused_witness:
  "py_float (\<lambda>s. None) (PyNum (Fin 50000)) = Inr (Fin 50000)
   \<and> py_float (\<lambda>s. None) (PyNum (Fin 1)) = Inr (Fin 1)
   \<and> predict sample_sorted sample_list_sort (\<lambda>s. None) (\<lambda>f. Fin 5) [ragi_row]
        [quote_rec ''Ragi'' (Fin 2000)] (mandya_request\<lparr>profit := PyNum (Fin 1)\<rparr>)
      = predict sample_sorted sample_list_sort (\<lambda>s. None) (\<lambda>f. Fin 5) [ragi_row]
        [quote_rec ''Ragi'' (Fin 2000)] (mandya_request\<lparr>profit := PyNum (Fin 50000)\<rparr>)
   \<and> predict sample_sorted sample_list_sort (\<lambda>s. None) (\<lambda>f. Fin 5) [ragi_row]
        [quote_rec ''Ragi'' (Fin 2000)] (mandya_request\<lparr>profit := PyNum (Fin 1)\<rparr>)
      = Inr [ragi_recommendation]"
proof -
  have a: "py_float (\<lambda>s. None) (PyNum (Fin 50000)) = Inr (Fin 50000)" by simp
  have b: "py_float (\<lambda>s. None) (PyNum (Fin 1)) = Inr (Fin 1)" by simp
  have c: "mandya_request\<lparr>profit := PyNum (Fin 50000)\<rparr> = mandya_request"
    by (simp add: mandya_request_def)
  from profit_unused[OF b a, of sample_sorted sample_list_sort "\<lambda>f. Fin 5" "[ragi_row]"
      "[quote_rec ''Ragi'' (Fin 2000)]" mandya_request]
    a b c predict_ragi[OF sample_sorted_ok sample_list_sort_ok, of "\<lambda>s. None"]
  show ?thesis by simp
qed

text \<open>
  Claim C10 says that every price of the index lies in the inclusive range from 100 to
  30000 and that every price reported in a recommendation is at least 100. For a feed
  that quotes ragi at \<^verbatim>\<open>nan\<close> the code stores \<^verbatim>\<open>nan\<close> in the index, which is not in the
  range; the name ragi resolves to it, it is not equal to 0, and the recommendation that
  \<^verbatim>\<open>predict\<close> returns reports the price \<^verbatim>\<open>nan\<close>, which is not at least 100.
\<close>

theorem nan_price_in_index:
  assumes "sorted_ok srt" and "list_sort_ok lsort"
  shows "build_price_dictionary srt pf [quote_rec ''Ragi'' NaN] = Inr [(''ragi'', NaN)]
         \<and> \<not> in_range NaN
         \<and> get_price_for_crop ''Ragi'' [(''ragi'', NaN)] = NaN
         \<and> \<not> f_eq NaN (Fin 0) \<and> \<not> f_le (Fin 100) NaN
         \<and> predict srt lsort pf (\<lambda>f. Fin 5) [ragi_row] [quote_rec ''Ragi'' NaN] mandya_request
           = Inr [ragi_nan]
         \<and> \<not> f_le (Fin 100) (market_price_per_quintal ragi_nan)"
  using predict_ragi_nan[OF assms] build_ragi[OF assms(1), of pf NaN]
  by (simp add: price_ragi in_range_def f_le_NaN f_eq_def f_gt_def f_lt_NaN ragi_nan_def)

theorem nan_price_in_index_witness:
  "sorted_ok sample_sorted \<and> list_sort_ok sample_list_sort
   \<and> build_price_dictionary sample_sorted (\<lambda>s. None) [quote_rec ''Ragi'' NaN]
      = Inr [(''ragi'', NaN)]
   \<and> \<not> in_range NaN
   \<and> predict sample_sorted sample_list_sort (\<lambda>s. None) (\<lambda>f. Fin 5) [ragi_row]
        [quote_rec ''Ragi'' NaN] mandya_request = Inr [ragi_nan]
   \<and> \<not> f_le (Fin 100) (market_price_per_quintal ragi_nan)"
  using nan_price_in_index[OF sample_sorted_ok sample_list_sort_ok, of "\<lambda>s. None"]
    sample_sorted_ok sample_list_sort_ok
  by (simp add: f_le_NaN in_range_def)

end
